theory Spec2Isabelle
  imports Main "HOL-Library.Word" "HOL-Library.Signed_Division" "HOL-Library.Log_Nat"
begin

section \<open>Machine integers\<close>

text \<open>
  Go's \<open>int\<close> is a 64-bit two's complement integer on the platforms the program is
  built for. It is modelled as a 64-bit word: \<open>+\<close> and \<open>-\<close> wrap around, comparisons
  are the signed ones (\<open><s\<close>, \<open>\<le>s\<close>), \<open>sint\<close> reads the value.
\<close>

type_synonym int64 = "64 word"

text \<open>Go's builtin \<open>max\<close> on two \<open>int\<close> values.\<close>

definition smax :: "int64 \<Rightarrow> int64 \<Rightarrow> int64" where
  "smax a b = (if a <s b then b else a)"

text \<open>Go's \<open>/\<close> on \<open>int\<close>: the quotient is truncated towards zero.\<close>

definition quot :: "int64 \<Rightarrow> int64 \<Rightarrow> int64" where
  "quot a b = word_of_int (sint a sdiv sint b)"

section \<open>The float64 arithmetic of the 85% rule\<close>

text \<open>
  \<open>int(float64(n) * 0.85)\<close> is the only floating-point computation of the dialog. It is
  modelled exactly, with integers. Every double that arises is zero or has a magnitude
  between \<open>2^-1\<close> and \<open>2^63\<close>, so neither subnormals nor infinities occur, and
  rounding to nearest (ties to even) at 53 significant bits commutes with scaling by a
  power of two. \<open>round53 p\<close> is that rounding on a natural number \<open>p\<close>:
  with \<open>k\<close> the bit length of \<open>p\<close>, the low \<open>k - 53\<close> bits are rounded away.
\<close>

definition round53 :: "nat \<Rightarrow> nat" where
  "round53 p =
     (let k = floorlog 2 p in
      if k \<le> 53 then p
      else
        let s = k - 53;
            q = p div 2 ^ s;
            r = p mod 2 ^ s;
            q' = (if 2 ^ (s - 1) < r \<or> (r = 2 ^ (s - 1) \<and> odd q) then q + 1 else q)
        in q' * 2 ^ s)"

text \<open>\<open>float64(n)\<close> for an \<open>int\<close> \<open>n\<close>: the nearest double, which is an integer.\<close>

definition float64_of_int :: "int \<Rightarrow> int" where
  "float64_of_int n = sgn n * int (round53 (nat \<bar>n\<bar>))"

text \<open>
  The constant \<open>0.85\<close> is the double \<open>0x1.b333333333333p-1\<close>, that is
  \<open>c085 / 2^53\<close>.
\<close>

definition c085 :: nat where
  "c085 = 7656119366529843"

text \<open>
  \<open>f * 0.85\<close> for an integer-valued double \<open>f\<close>: the exact product is
  \<open>f * c085 / 2^53\<close>; the result is its rounding, returned as the numerator over
  \<open>2^53\<close>.
\<close>

definition mul085 :: "int \<Rightarrow> int" where
  "mul085 f = sgn f * int (round53 (nat \<bar>f\<bar> * c085))"

text \<open>\<open>int(x)\<close> for the double \<open>x = a / 2^53\<close>: truncation towards zero.\<close>

definition trunc53 :: "int \<Rightarrow> int" where
  "trunc53 a = sgn a * (\<bar>a\<bar> div 2 ^ 53)"

text \<open>
  \<open>int(float64(n) * 0.85)\<close> on a Go \<open>int\<close>. The double always lies within the range
  of \<open>int\<close> (lemma \<open>sint_scale85\<close> below), so the conversion is the truncation.
\<close>

definition scale85 :: "int64 \<Rightarrow> int64" where
  "scale85 n = word_of_int (trunc53 (mul085 (float64_of_int (sint n))))"

section \<open>The embedded terminal\<close>

type_synonym error = string

datatype MouseKind = MouseClick | MouseRelease | MouseWheel | MouseMotion

datatype TermCall =
    CallResize int64 int64
  | CallStart
  | CallClose
  | CallSendText string
  | CallSendKey nat
  | CallSendPaste string
  | CallSendMouse MouseKind int64 int64

text \<open>
  Modelled from the spec: package \<open>internal/terminal\<close> is not among the sources; the
  dialog uses it through the capability contract of the spec (section 6) and the two
  states \<open>Uninitialized\<close> and \<open>Started\<close> of section 4.1. A terminal records whether it
  has started and closed, its size, the cursor it reports, and every method call made on
  it with the error the call returned (oldest first). Whether \<open>Resize\<close>, \<open>Start\<close> and
  \<open>Close\<close> fail is up to the terminal: each is a function of the calls made so far, so
  that every pattern of failures is a terminal.
\<close>

record Terminal =
  started :: bool
  closed :: bool
  cols :: int64
  rows :: int64
  cursor :: "int64 \<times> int64"
  calls :: "(TermCall \<times> error option) list"
  resizeErr :: "(TermCall \<times> error option) list \<Rightarrow> int64 \<Rightarrow> int64 \<Rightarrow> error option"
  startErr :: "(TermCall \<times> error option) list \<Rightarrow> error option"
  closeErr :: "(TermCall \<times> error option) list \<Rightarrow> error option"

text \<open>Modelled from the spec: \<open>Started() bool\<close> and \<open>Closed() bool\<close>.\<close>

definition Terminal_Started :: "Terminal \<Rightarrow> bool" where
  "Terminal_Started t = started t"

definition Terminal_Closed :: "Terminal \<Rightarrow> bool" where
  "Terminal_Closed t = closed t"

text \<open>
  Modelled from the spec: \<open>Resize(width, height) error\<close>. A successful call sets the
  size; a failed one changes nothing but the record of calls. Neither changes
  \<open>Started\<close>.
\<close>

definition Terminal_Resize :: "int64 \<Rightarrow> int64 \<Rightarrow> Terminal \<Rightarrow> error option \<times> Terminal" where
  "Terminal_Resize w h t =
     (case resizeErr t (calls t) w h of
        Some e \<Rightarrow> (Some e, t\<lparr>calls := calls t @ [(CallResize w h, Some e)]\<rparr>)
      | None \<Rightarrow> (None, t\<lparr>cols := w, rows := h, calls := calls t @ [(CallResize w h, None)]\<rparr>))"

text \<open>
  Modelled from the spec: \<open>Start() error\<close>. A successful call moves the terminal to
  \<open>Started\<close>; after a failed one it stays as it was (section 8: when the start fails
  the dialog stays in \<open>Uninitialized\<close>).
\<close>

definition Terminal_Start :: "Terminal \<Rightarrow> error option \<times> Terminal" where
  "Terminal_Start t =
     (case startErr t (calls t) of
        Some e \<Rightarrow> (Some e, t\<lparr>calls := calls t @ [(CallStart, Some e)]\<rparr>)
      | None \<Rightarrow> (None, t\<lparr>started := True, calls := calls t @ [(CallStart, None)]\<rparr>))"

text \<open>Modelled from the spec: \<open>Close() error\<close>.\<close>

definition Terminal_Close :: "Terminal \<Rightarrow> error option \<times> Terminal" where
  "Terminal_Close t =
     (closeErr t (calls t),
      t\<lparr>closed := True, calls := calls t @ [(CallClose, closeErr t (calls t))]\<rparr>)"

text \<open>
  Modelled from the spec: the input injections \<open>SendText\<close>, \<open>SendKey\<close>, \<open>SendPaste\<close>
  and \<open>SendMouse\<close> return nothing; the model records them.
\<close>

definition Terminal_Send :: "TermCall \<Rightarrow> Terminal \<Rightarrow> Terminal" where
  "Terminal_Send c t = t\<lparr>calls := calls t @ [(c, None)]\<rparr>"

text \<open>Modelled from the spec: \<open>CursorPosition() (x, y)\<close>.\<close>

definition Terminal_CursorPosition :: "Terminal \<Rightarrow> int64 \<times> int64" where
  "Terminal_CursorPosition t = cursor t"

section \<open>The dialog\<close>

datatype OutMsg = CloseDialogMsg | ResultMsg string "error option"

text \<open>
  A \<open>tea.Cmd\<close>: the error report of \<open>util.ReportError\<close>, a \<open>tea.Batch\<close>, or
  \<open>util.CmdHandler\<close> of a message. \<open>nil\<close> is \<open>None\<close> of \<open>Cmd option\<close>.
  Modelled from the spec: \<open>WaitCmd\<close> and \<open>RefreshCmd\<close> are the two task factories of
  the absent terminal package (wait for exit, refresh); each returns a command that is
  not \<open>nil\<close>.
\<close>

datatype Cmd =
    ReportError error
  | WaitCmd
  | RefreshCmd
  | Batch "Cmd list"
  | CmdHandler OutMsg

datatype Msg =
    WindowSizeMsg int64 int64
  | ExitMsg
  | OutputMsg
  | KeyPressMsg string nat
  | PasteMsg string
  | MouseMsg MouseKind int64 int64
  | OtherMsg

definition headerHeight :: int64 where
  "headerHeight = 2"

definition fullscreenWidthBreakpoint :: int64 where
  "fullscreenWidthBreakpoint = 120"

record Config =
  cfg_ID :: string
  cfg_Title :: string
  cfg_LoadingMsg :: string
  cfg_Term :: Terminal
  cfg_OnClose :: "(unit \<Rightarrow> Cmd option) option"

text \<open>
  The dialog. \<open>Init\<close> returns \<open>nil\<close> and \<open>View\<close> renders the state through the
  styling library; neither changes the dialog nor calls the terminal's fallible
  methods, and they are left out.
\<close>

record Dialog =
  dialog_id :: string
  title :: string
  loadingMsg :: string
  terminal :: Terminal
  onClose :: "(unit \<Rightarrow> Cmd option) option"
  wWidth :: int64
  wHeight :: int64
  width :: int64
  height :: int64
  fullscreen :: bool

definition New :: "Config \<Rightarrow> Dialog" where
  "New cfg =
     \<lparr>dialog_id = cfg_ID cfg,
      title = cfg_Title cfg,
      loadingMsg = (if cfg_LoadingMsg cfg = [] then ''Starting...'' else cfg_LoadingMsg cfg),
      terminal = cfg_Term cfg,
      onClose = cfg_OnClose cfg,
      wWidth = 0, wHeight = 0, width = 0, height = 0, fullscreen = False\<rparr>"

text \<open>
  The outer size of \<open>handleResize\<close>: the host bounds in fullscreen layout, otherwise 85%
  of them, capped at the host bounds less 6 columns and 4 rows.
\<close>

definition outerWidth :: "int64 \<Rightarrow> int64" where
  "outerWidth mw =
     (if mw <s fullscreenWidthBreakpoint then mw
      else if mw - 6 <s scale85 mw then mw - 6 else scale85 mw)"

definition outerHeight :: "int64 \<Rightarrow> int64 \<Rightarrow> int64" where
  "outerHeight mw mh =
     (if mw <s fullscreenWidthBreakpoint then mh
      else if mh - 4 <s scale85 mh then mh - 4 else scale85 mh)"

text \<open>The local \<open>termHeight\<close> of \<open>handleResize\<close>, from the inner height.\<close>

definition termHeight :: "int64 \<Rightarrow> int64" where
  "termHeight h = smax (h - headerHeight) 5"

definition handleResize :: "int64 \<Rightarrow> int64 \<Rightarrow> Dialog \<Rightarrow> Dialog \<times> Cmd option" where
  "handleResize mw mh d =
     (let w = smax (outerWidth mw - 2) 40;
          h = smax (outerHeight mw mh - 2) 10;
          d1 = d\<lparr>wWidth := mw, wHeight := mh,
                 fullscreen := (mw <s fullscreenWidthBreakpoint),
                 width := w, height := h\<rparr>;
          t = terminal d1
      in
        if \<not> Terminal_Started t \<and> 0 <s w \<and> 0 <s termHeight h then
          (case Terminal_Resize w (termHeight h) t of
             (Some err, t1) \<Rightarrow> (d1\<lparr>terminal := t1\<rparr>, Some (ReportError err))
           | (None, t1) \<Rightarrow>
               (case Terminal_Start t1 of
                  (Some err, t2) \<Rightarrow> (d1\<lparr>terminal := t2\<rparr>, Some (ReportError err))
                | (None, t2) \<Rightarrow> (d1\<lparr>terminal := t2\<rparr>, Some (Batch [WaitCmd, RefreshCmd]))))
        else
          (case Terminal_Resize w (termHeight h) t of
             (Some err, t1) \<Rightarrow> (d1\<lparr>terminal := t1\<rparr>, Some (ReportError err))
           | (None, t1) \<Rightarrow> (d1\<lparr>terminal := t1\<rparr>, None)))"

definition handleKey :: "string \<Rightarrow> nat \<Rightarrow> Dialog \<Rightarrow> Dialog \<times> Cmd option" where
  "handleKey text code d =
     (if text \<noteq> [] then (d\<lparr>terminal := Terminal_Send (CallSendText text) (terminal d)\<rparr>, None)
      else (d\<lparr>terminal := Terminal_Send (CallSendKey code) (terminal d)\<rparr>, None))"

definition Position :: "Dialog \<Rightarrow> int64 \<times> int64" where
  "Position d =
     (if fullscreen d then (0, 0)
      else
        let dialogWidth = width d + 2;
            dialogHeight = height d + 2;
            row = smax (quot (wHeight d - dialogHeight) 2) 0;
            col = smax (quot (wWidth d - dialogWidth) 2) 0
        in (row, col))"

text \<open>The closure \<open>adjust\<close> of \<open>handleMouse\<close>, on the point \<open>(x, y)\<close>.\<close>

definition adjust :: "Dialog \<Rightarrow> int64 \<times> int64 \<Rightarrow> int64 \<times> int64" where
  "adjust d p =
     (case Position d of (row, col) \<Rightarrow>
        (fst p - col - 1, snd p - row - 1 - headerHeight))"

definition handleMouse :: "MouseKind \<Rightarrow> int64 \<Rightarrow> int64 \<Rightarrow> Dialog \<Rightarrow> Dialog \<times> Cmd option" where
  "handleMouse k x y d =
     (case adjust d (x, y) of (x', y') \<Rightarrow>
        (d\<lparr>terminal := Terminal_Send (CallSendMouse k x' y') (terminal d)\<rparr>, None))"

text \<open>
  The translation of \<open>Cursor\<close> from the terminal's cursor to the screen:
  \<open>cursor.X += col + 1\<close>, \<open>cursor.Y += row + 1 + headerHeight\<close>.
\<close>

definition cursorToScreen :: "Dialog \<Rightarrow> int64 \<times> int64 \<Rightarrow> int64 \<times> int64" where
  "cursorToScreen d p =
     (case Position d of (row, col) \<Rightarrow>
        (fst p + (col + 1), snd p + (row + 1 + headerHeight)))"

text \<open>\<open>Cursor\<close>: the screen position of the cursor, \<open>None\<close> for \<open>nil\<close>.\<close>

definition Cursor :: "Dialog \<Rightarrow> (int64 \<times> int64) option" where
  "Cursor d =
     (case Terminal_CursorPosition (terminal d) of (x, y) \<Rightarrow>
        if x <s 0 \<or> y <s 0 then None else Some (cursorToScreen d (x, y)))"

definition Update :: "Msg \<Rightarrow> Dialog \<Rightarrow> Dialog \<times> Cmd option" where
  "Update msg d =
     (case msg of
        WindowSizeMsg mw mh \<Rightarrow> handleResize mw mh d
      | ExitMsg \<Rightarrow> (d, Some (CmdHandler CloseDialogMsg))
      | OutputMsg \<Rightarrow> (if Terminal_Closed (terminal d) then (d, None) else (d, Some RefreshCmd))
      | KeyPressMsg text code \<Rightarrow> handleKey text code d
      | PasteMsg content \<Rightarrow>
          (d\<lparr>terminal := Terminal_Send (CallSendPaste content) (terminal d)\<rparr>, None)
      | MouseMsg k x y \<Rightarrow> handleMouse k x y d
      | OtherMsg \<Rightarrow> (d, None))"

text \<open>
  \<open>Close\<close>: the terminal is closed and the error dropped; the result is the callback's
  command when there is a callback, \<open>nil\<close> otherwise.
\<close>

definition Close :: "Dialog \<Rightarrow> Dialog \<times> Cmd option" where
  "Close d =
     (case Terminal_Close (terminal d) of (err, t1) \<Rightarrow>
        (d\<lparr>terminal := t1\<rparr>,
         (case onClose d of Some f \<Rightarrow> f () | None \<Rightarrow> None)))"

text \<open>The host delivers messages one after the other; \<open>run\<close> handles a list of them.\<close>

fun run :: "Msg list \<Rightarrow> Dialog \<Rightarrow> Dialog" where
  "run [] d = d"
| "run (m # ms) d = run ms (fst (Update m d))"

section \<open>Example terminals and dialogs\<close>

text \<open>A terminal on which no call fails.\<close>

definition plainTerminal :: Terminal where
  "plainTerminal =
     \<lparr>started = False, closed = False, cols = 0, rows = 0, cursor = (0, 0), calls = [],
      resizeErr = (\<lambda>cs w h. None), startErr = (\<lambda>cs. None), closeErr = (\<lambda>cs. None)\<rparr>"

text \<open>A terminal whose \<open>Resize\<close> always fails.\<close>

definition resizeFailTerminal :: Terminal where
  "resizeFailTerminal = plainTerminal\<lparr>resizeErr := (\<lambda>cs w h. Some ''resize failed'')\<rparr>"

text \<open>A terminal whose \<open>Start\<close> always fails (no command to run, say).\<close>

definition startFailTerminal :: Terminal where
  "startFailTerminal = plainTerminal\<lparr>startErr := (\<lambda>cs. Some ''start failed'')\<rparr>"

text \<open>A terminal whose \<open>Close\<close> fails.\<close>

definition closeFailTerminal :: Terminal where
  "closeFailTerminal = plainTerminal\<lparr>closeErr := (\<lambda>cs. Some ''close failed'')\<rparr>"

text \<open>
  The configuration of the editor dialog on a given terminal, without a completion
  callback, and with one that fails to read the edited file back.
\<close>

definition editorConfig :: "Terminal \<Rightarrow> Config" where
  "editorConfig t =
     \<lparr>cfg_ID = ''tui_editor'', cfg_Title = ''Editor'',
      cfg_LoadingMsg = ''Starting editor...'', cfg_Term = t, cfg_OnClose = None\<rparr>"

definition failingCallback :: "unit \<Rightarrow> Cmd option" where
  "failingCallback u = Some (CmdHandler (ResultMsg [] (Some ''no such file'')))"

definition editorConfigWithCallback :: "Terminal \<Rightarrow> Config" where
  "editorConfigWithCallback t = (editorConfig t)\<lparr>cfg_OnClose := Some failingCallback\<rparr>"

text \<open>The calls made on the dialog's terminal since the dialog was in state \<open>d\<close>.\<close>

definition newCalls :: "Dialog \<Rightarrow> Dialog \<Rightarrow> (TermCall \<times> error option) list" where
  "newCalls d d' = drop (length (calls (terminal d))) (calls (terminal d'))"

text \<open>A call of \<open>Start\<close>, whatever it returned, and one that returned no error.\<close>

definition isStart :: "TermCall \<times> error option \<Rightarrow> bool" where
  "isStart c = (fst c = CallStart)"


text \<open>An integer that a Go \<open>int\<close> holds.\<close>

definition fitsInt :: "int \<Rightarrow> bool" where
  "fitsInt x = (- (2 ^ 63) \<le> x \<and> x < 2 ^ 63)"

section \<open>Signed arithmetic\<close>

lemma sint_smax: "sint (smax a b) = max (sint a) (sint b)"
  by (simp add: smax_def word_sless_alt max_def)

lemma smax_ge_right: "b \<le>s smax a b"
  by (simp add: word_sle_eq sint_smax)

lemma smax_ge_left: "a \<le>s smax a b"
  by (simp add: word_sle_eq sint_smax)

lemma smax_pos: "0 <s b \<Longrightarrow> 0 <s smax a b"
  by (simp add: word_sless_alt sint_smax)

lemma width_pos: "0 <s smax a 40"
  by (rule smax_pos) (simp add: word_sless_alt)

lemma termHeight_ge5: "5 \<le>s termHeight h"
  unfolding termHeight_def by (rule smax_ge_right)

lemma termHeight_pos: "0 <s termHeight h"
  unfolding termHeight_def by (rule smax_pos) (simp add: word_sless_alt)

lemma sint_sub2: "10 \<le>s h \<Longrightarrow> sint (h - 2 :: int64) = sint h - 2"
  apply (simp add: word_sle_eq sint_word_ariths)
  apply (rule signed_take_bit_int_eq_self)
  using sint_range_size[of h] sint_lt[of h] apply (simp_all add: word_size)
  done

lemma sint_termHeight: "10 \<le>s h \<Longrightarrow> sint (termHeight h) = max (sint h - 2) 5"
  by (simp add: termHeight_def headerHeight_def sint_smax sint_sub2)

lemma sint_sub: "- (2 ^ 63) \<le> sint a - sint b \<Longrightarrow> sint a - sint b < 2 ^ 63 \<Longrightarrow>
    sint (a - b :: int64) = sint a - sint b"
  by (simp add: sint_word_ariths signed_take_bit_int_eq_self)

lemma sint_add: "- (2 ^ 63) \<le> sint a + sint b \<Longrightarrow> sint a + sint b < 2 ^ 63 \<Longrightarrow>
    sint (a + b :: int64) = sint a + sint b"
  by (simp add: sint_word_ariths signed_take_bit_int_eq_self)

text \<open>Halving never overflows, and under \<open>max _ 0\<close> truncation and flooring agree.\<close>

lemma sint_quot2: "sint (quot x 2) = sint x sdiv 2"
proof -
  have r: "- (2 ^ 63) \<le> sint x" "sint x < 2 ^ 63"
    using sint_ge [of x] sint_lt [of x] by simp_all
  have "sint x sdiv 2 = sgn (sint x) * (\<bar>sint x\<bar> div 2)"
    by (simp add: signed_divide_int_def)
  then have "- (2 ^ 63) \<le> sint x sdiv 2 \<and> sint x sdiv 2 < 2 ^ 63"
    using r by (simp add: sgn_if) linarith
  then show ?thesis
    by (simp add: quot_def signed_of_int signed_take_bit_int_eq_self)
qed

lemma max_sdiv2: "max (x sdiv 2) 0 = max ((x :: int) div 2) 0"
  by (simp add: signed_divide_int_def sgn_if max_def) linarith

lemma sint_centre:
  assumes "fitsInt (sint b + 2)" "fitsInt (sint a - (sint b + 2))"
  shows "sint (smax (quot (a - (b + 2)) 2) 0) = max ((sint a - (sint b + 2)) div 2) 0"
proof -
  have "sint (b + 2) = sint b + 2"
    using assms(1) sint_ge [of b] by (simp add: fitsInt_def sint_add)
  then have "sint (a - (b + 2)) = sint a - (sint b + 2)"
    using assms(2) by (simp add: fitsInt_def sint_sub)
  then show ?thesis
    by (simp add: sint_smax sint_quot2 max_sdiv2)
qed

section \<open>The terminal's record of calls\<close>

lemma Resize_calls:
  "calls (snd (Terminal_Resize w h t)) = calls t @ [(CallResize w h, fst (Terminal_Resize w h t))]"
  by (simp add: Terminal_Resize_def split: option.splits)

lemma Resize_started: "started (snd (Terminal_Resize w h t)) = started t"
  by (simp add: Terminal_Resize_def split: option.splits)

lemma Resize_fst: "fst (Terminal_Resize w h t) = resizeErr t (calls t) w h"
  by (simp add: Terminal_Resize_def split: option.splits)

lemma Start_calls:
  "calls (snd (Terminal_Start t)) = calls t @ [(CallStart, fst (Terminal_Start t))]"
  by (simp add: Terminal_Start_def split: option.splits)

lemma Start_started:
  "started (snd (Terminal_Start t)) = (started t \<or> fst (Terminal_Start t) = None)"
  by (simp add: Terminal_Start_def split: option.splits)

section \<open>What \<open>handleResize\<close> leaves behind\<close>

lemma handleResize_width: "width (fst (handleResize mw mh d)) = smax (outerWidth mw - 2) 40"
  by (simp add: handleResize_def Let_def split: prod.splits option.splits)

lemma handleResize_height:
  "height (fst (handleResize mw mh d)) = smax (outerHeight mw mh - 2) 10"
  by (simp add: handleResize_def Let_def split: prod.splits option.splits)

lemma handleResize_fullscreen:
  "fullscreen (fst (handleResize mw mh d)) = (mw <s fullscreenWidthBreakpoint)"
  by (simp add: handleResize_def Let_def split: prod.splits option.splits)

lemma handleResize_host:
  "wWidth (fst (handleResize mw mh d)) = mw \<and> wHeight (fst (handleResize mw mh d)) = mh"
  by (simp add: handleResize_def Let_def split: prod.splits option.splits)

lemma handleResize_onClose: "onClose (fst (handleResize mw mh d)) = onClose d"
  by (simp add: handleResize_def Let_def split: prod.splits option.splits)

text \<open>
  The guard \<open>d.width > 0 && termHeight > 0\<close> holds whatever the host bounds are, so the
  branch of \<open>handleResize\<close> is decided by \<open>Started\<close> alone.
\<close>

lemma handleResize_unstarted:
  "\<not> Terminal_Started (terminal d) \<Longrightarrow>
   handleResize mw mh d =
     (let w = smax (outerWidth mw - 2) 40;
          h = smax (outerHeight mw mh - 2) 10;
          d1 = d\<lparr>wWidth := mw, wHeight := mh,
                 fullscreen := (mw <s fullscreenWidthBreakpoint),
                 width := w, height := h\<rparr>
      in case Terminal_Resize w (termHeight h) (terminal d) of
             (Some err, t1) \<Rightarrow> (d1\<lparr>terminal := t1\<rparr>, Some (ReportError err))
           | (None, t1) \<Rightarrow>
               (case Terminal_Start t1 of
                  (Some err, t2) \<Rightarrow> (d1\<lparr>terminal := t2\<rparr>, Some (ReportError err))
                | (None, t2) \<Rightarrow> (d1\<lparr>terminal := t2\<rparr>, Some (Batch [WaitCmd, RefreshCmd]))))"
  by (simp add: handleResize_def Let_def width_pos termHeight_pos)

lemma handleResize_started:
  "Terminal_Started (terminal d) \<Longrightarrow>
   handleResize mw mh d =
     (let w = smax (outerWidth mw - 2) 40;
          h = smax (outerHeight mw mh - 2) 10;
          d1 = d\<lparr>wWidth := mw, wHeight := mh,
                 fullscreen := (mw <s fullscreenWidthBreakpoint),
                 width := w, height := h\<rparr>
      in case Terminal_Resize w (termHeight h) (terminal d) of
             (Some err, t1) \<Rightarrow> (d1\<lparr>terminal := t1\<rparr>, Some (ReportError err))
           | (None, t1) \<Rightarrow> (d1\<lparr>terminal := t1\<rparr>, None))"
  by (simp add: handleResize_def Let_def)

lemma handleResize_terminal:
  "terminal (fst (handleResize mw mh d)) =
     (let r = Terminal_Resize (smax (outerWidth mw - 2) 40)
                (termHeight (smax (outerHeight mw mh - 2) 10)) (terminal d)
      in if \<not> Terminal_Started (terminal d) \<and> fst r = None
         then snd (Terminal_Start (snd r)) else snd r)"
proof (cases "Terminal_Started (terminal d)")
  case True
  then show ?thesis
    by (simp add: handleResize_started Let_def split: prod.splits option.splits)
next
  case False
  then show ?thesis
    by (simp add: handleResize_unstarted Let_def split: prod.splits option.splits)
qed

lemma handleResize_first_call:
  "fst (calls (terminal (fst (handleResize mw mh d))) ! length (calls (terminal d))) =
     CallResize (smax (outerWidth mw - 2) 40) (termHeight (smax (outerHeight mw mh - 2) 10))"
  by (simp add: handleResize_terminal Let_def Resize_calls Start_calls nth_append)

lemma newCalls_handleResize:
  "newCalls d (fst (handleResize mw mh d)) =
     (let r = Terminal_Resize (smax (outerWidth mw - 2) 40)
                (termHeight (smax (outerHeight mw mh - 2) 10)) (terminal d)
      in (CallResize (smax (outerWidth mw - 2) 40)
            (termHeight (smax (outerHeight mw mh - 2) 10)), fst r) #
         (if \<not> Terminal_Started (terminal d) \<and> fst r = None
          then [(CallStart, fst (Terminal_Start (snd r)))] else []))"
  by (simp add: newCalls_def handleResize_terminal Let_def Resize_calls Start_calls)

lemma handleResize_Started:
  "Terminal_Started (terminal (fst (handleResize mw mh d))) =
     (let r = Terminal_Resize (smax (outerWidth mw - 2) 40)
                (termHeight (smax (outerHeight mw mh - 2) 10)) (terminal d)
      in Terminal_Started (terminal d) \<or>
         (fst r = None \<and> fst (Terminal_Start (snd r)) = None))"
  by (auto simp add: handleResize_terminal Let_def Terminal_Started_def Resize_started
      Start_started)

section \<open>Bounds on the float64 rounding\<close>

text \<open>Rounding to 53 significant bits adds at most half a unit in the last place.\<close>

lemma round53_le_add:
  assumes "53 < floorlog 2 p"
  shows "round53 p \<le> p + 2 ^ (floorlog 2 p - 54)"
proof -
  define s where "s = floorlog 2 p - 54"
  define h where "h = (2::nat) ^ s"
  have k: "floorlog 2 p - 53 = Suc s"
    using assms by (simp add: s_def)
  define q where "q = p div 2 ^ Suc s"
  define r where "r = p mod 2 ^ Suc s"
  define X where "X = q * 2 ^ Suc s"
  have p: "p = X + r"
    unfolding X_def q_def r_def by (rule div_mult_mod_eq [symmetric])
  have "round53 p =
      (if 2 ^ (Suc s - 1) < r \<or> (r = 2 ^ (Suc s - 1) \<and> odd q) then q + 1 else q) * 2 ^ Suc s"
    using assms unfolding round53_def Let_def k q_def r_def by simp
  then have r53: "round53 p = (if h < r \<or> (r = h \<and> odd q) then X + 2 * h else X)"
    by (simp add: h_def X_def algebra_simps)
  have "(if h < r \<or> (r = h \<and> odd q) then X + 2 * h else X) \<le> X + r + h"
    by auto
  then have "round53 p \<le> X + r + h"
    by (simp only: r53)
  then have "round53 p \<le> p + h"
    by (simp only: p [symmetric])
  then show ?thesis
    by (simp add: h_def s_def)
qed

lemma round53_le: "round53 p * 2 ^ 53 \<le> p * (2 ^ 53 + 1)"
proof (cases "53 < floorlog 2 p")
  case False
  then have "round53 p = p"
    by (simp add: round53_def)
  then show ?thesis by simp
next
  case True
  define h where "h = (2::nat) ^ (floorlog 2 p - 54)"
  have pos: "0 < p"
    using True by (cases "p = 0") (simp_all add: floorlog_def)
  have "(2::nat) ^ (floorlog 2 p - 1) \<le> p"
    using floorlog_bounds [of p 2] pos by simp
  moreover have "floorlog 2 p - 1 = (floorlog 2 p - 54) + 53"
    using True by simp
  ultimately have lo: "h * 2 ^ 53 \<le> p"
    by (simp only: h_def power_add)
  have "round53 p \<le> p + h"
    using round53_le_add [OF True] by (simp only: h_def)
  then have "round53 p * 2 ^ 53 \<le> (p + h) * 2 ^ 53"
    by (rule mult_le_mono1)
  also have "\<dots> = p * 2 ^ 53 + h * 2 ^ 53"
    by (rule add_mult_distrib)
  also have "\<dots> \<le> p * 2 ^ 53 + p"
    using lo by (rule add_left_mono)
  also have "\<dots> = p * (2 ^ 53 + 1)"
    by (simp only: add_mult_distrib2 mult_1_right)
  finally show ?thesis .
qed

lemma round53_0: "round53 0 = 0"
  by (simp add: round53_def floorlog_def)

lemma abs_float64_of_int: "\<bar>float64_of_int n\<bar> = int (round53 (nat \<bar>n\<bar>))"
  by (cases "n = 0") (simp_all add: float64_of_int_def round53_0 abs_mult)

lemma abs_mul085: "\<bar>mul085 f\<bar> = int (round53 (nat \<bar>f\<bar> * c085))"
  by (cases "f = 0") (simp_all add: mul085_def round53_0 abs_mult)

lemma abs_trunc53: "\<bar>trunc53 a\<bar> = \<bar>a\<bar> div 2 ^ 53"
  by (cases "a = 0") (simp_all add: trunc53_def abs_mult)

lemma scale_nonneg: "0 \<le> n \<Longrightarrow> 0 \<le> trunc53 (mul085 (float64_of_int n))"
  by (simp add: trunc53_def mul085_def float64_of_int_def sgn_if pos_imp_zdiv_nonneg_iff)

lemma scale_range_nat:
  assumes "a \<le> 2 ^ 63"
  shows "round53 (round53 a * c085) div 2 ^ 53 < 2 ^ 63"
proof -
  define f where "f = round53 a"
  define R where "R = round53 (f * c085)"
  have 1: "f * 2 ^ 53 \<le> a * (2 ^ 53 + 1)"
    unfolding f_def by (rule round53_le)
  have 2: "R * 2 ^ 53 \<le> (f * c085) * (2 ^ 53 + 1)"
    unfolding R_def by (rule round53_le)
  have "R < 2 ^ 116"
    using 1 2 assms by (simp add: c085_def)
  then have "R div 2 ^ 53 < 2 ^ 63"
    by (simp add: less_mult_imp_div_less)
  then show ?thesis
    by (simp only: R_def f_def)
qed

lemma scale_range:
  assumes "\<bar>n\<bar> \<le> 2 ^ 63"
  shows "\<bar>trunc53 (mul085 (float64_of_int n))\<bar> < 2 ^ 63"
proof -
  have a: "nat \<bar>n\<bar> \<le> 2 ^ 63"
    using assms by (simp add: nat_le_iff)
  have "\<bar>trunc53 (mul085 (float64_of_int n))\<bar> =
      int (round53 (round53 (nat \<bar>n\<bar>) * c085)) div 2 ^ 53"
    by (simp only: abs_trunc53 abs_mul085 abs_float64_of_int nat_int)
  also have "\<dots> = int (round53 (round53 (nat \<bar>n\<bar>) * c085) div 2 ^ 53)"
    by (simp add: zdiv_int)
  also have "\<dots> < 2 ^ 63"
    using scale_range_nat [OF a] by (simp only: of_nat_less_numeral_power_cancel_iff)
  finally show ?thesis .
qed

lemma sint_scale85: "sint (scale85 n) = trunc53 (mul085 (float64_of_int (sint n)))"
proof -
  have "\<bar>sint n\<bar> \<le> 2 ^ 63"
    using sint_ge [of n] sint_lt [of n] by simp
  then have "\<bar>trunc53 (mul085 (float64_of_int (sint n)))\<bar> < 2 ^ 63"
    by (rule scale_range)
  then show ?thesis
    unfolding scale85_def
    by (simp add: signed_of_int signed_take_bit_int_eq_self abs_less_iff)
qed

lemma scale85_nonneg: "0 \<le>s n \<Longrightarrow> 0 \<le>s scale85 n"
  by (simp add: word_sle_eq sint_scale85 scale_nonneg)

section \<open>The 85% rule on given host bounds\<close>

lemma floorlog2_eqI: "0 < k \<Longrightarrow> 2 ^ (k - 1) \<le> p \<Longrightarrow> p < 2 ^ k \<Longrightarrow> floorlog 2 p = k"
  by (meson floorlog_geI floorlog_leI le_antisym one_less_numeral_iff semiring_norm(76) zero_le)

lemma round53_small: "p < 2 ^ 53 \<Longrightarrow> round53 p = p"
  by (simp add: round53_def floorlog_le_iff)

lemma float64_of_int_small: "\<bar>n\<bar> < 2 ^ 53 \<Longrightarrow> float64_of_int n = n"
  by (simp add: float64_of_int_def round53_small nat_less_iff sgn_if)

lemma floorlog_200: "floorlog 2 (200 * c085) = 61"
  by (rule floorlog2_eqI) (simp_all add: c085_def)

lemma floorlog_60: "floorlog 2 (60 * c085) = 59"
  by (rule floorlog2_eqI) (simp_all add: c085_def)

lemma floorlog_15: "floorlog 2 (15 * c085) = 57"
  by (rule floorlog2_eqI) (simp_all add: c085_def)

lemma scale85_200: "scale85 200 = 170"
  using floorlog_200
  by (simp add: scale85_def float64_of_int_small mul085_def trunc53_def round53_def c085_def)

lemma scale85_60: "scale85 60 = 51"
  using floorlog_60
  by (simp add: scale85_def float64_of_int_small mul085_def trunc53_def round53_def c085_def)

lemma scale85_15: "scale85 15 = 12"
  using floorlog_15
  by (simp add: scale85_def float64_of_int_small mul085_def trunc53_def round53_def c085_def)

text \<open>Further values: 85% of 100 and of 120, and truncation towards zero at -10.\<close>

lemma floorlog_10: "floorlog 2 (10 * c085) = 57"
  by (rule floorlog2_eqI) (simp_all add: c085_def)

lemma floorlog_100: "floorlog 2 (100 * c085) = 60"
  by (rule floorlog2_eqI) (simp_all add: c085_def)

lemma floorlog_120: "floorlog 2 (120 * c085) = 60"
  by (rule floorlog2_eqI) (simp_all add: c085_def)

lemma scale85_100: "scale85 100 = 85"
  using floorlog_100
  by (simp add: scale85_def float64_of_int_small mul085_def trunc53_def round53_def c085_def)

lemma scale85_120: "scale85 120 = 102"
  using floorlog_120
  by (simp add: scale85_def float64_of_int_small mul085_def trunc53_def round53_def c085_def)

lemma scale85_minus_10: "scale85 (- 10) = - 8"
  using floorlog_10
  by (simp add: scale85_def float64_of_int_small mul085_def trunc53_def round53_def c085_def)

lemma scale85_0: "scale85 0 = 0"
  by (simp add: scale85_def float64_of_int_small mul085_def trunc53_def round53_0)

lemma outer_200x60: "outerWidth 200 = 170 \<and> outerHeight 200 60 = 51"
  by (simp add: outerWidth_def outerHeight_def fullscreenWidthBreakpoint_def scale85_200
      scale85_60 word_sless_alt)

lemma outer_120x15: "outerHeight 120 15 = 11"
  by (simp add: outerHeight_def fullscreenWidthBreakpoint_def scale85_15 word_sless_alt)

lemmas eval_defs = New_def editorConfig_def editorConfigWithCallback_def failingCallback_def
  resizeFailTerminal_def startFailTerminal_def closeFailTerminal_def plainTerminal_def
  handleResize_def Terminal_Resize_def Terminal_Start_def Terminal_Started_def
  Terminal_Close_def Terminal_Closed_def Terminal_Send_def Terminal_CursorPosition_def
  smax_def termHeight_def outerWidth_def outerHeight_def headerHeight_def
  fullscreenWidthBreakpoint_def newCalls_def word_sless_alt word_sle_eq Let_def


section \<open>The 85% rule on host bounds below \<open>2^32\<close>\<close>

text \<open>
  On host bounds of magnitude below \<open>2^32\<close> the float64 computation is exact:
  \<open>int(float64(n) * 0.85)\<close> is \<open>85 * n / 100\<close> truncated towards zero. Rounding
  is off by at most half a unit in the last place in either direction; when
  \<open>85 * n / 100\<close> is an integer the product lies just below it and rounds up to it.
\<close>

lemma round53_ge_sub:
  assumes "53 < floorlog 2 p"
  shows "p \<le> round53 p + 2 ^ (floorlog 2 p - 54)"
proof -
  define s where "s = floorlog 2 p - 54"
  define h where "h = (2::nat) ^ s"
  have k: "floorlog 2 p - 53 = Suc s"
    using assms by (simp add: s_def)
  define q where "q = p div 2 ^ Suc s"
  define r where "r = p mod 2 ^ Suc s"
  define X where "X = q * 2 ^ Suc s"
  have p: "p = X + r"
    unfolding X_def q_def r_def by (rule div_mult_mod_eq [symmetric])
  have rlt: "r < 2 * h"
    unfolding r_def h_def by simp
  have "round53 p =
      (if 2 ^ (Suc s - 1) < r \<or> (r = 2 ^ (Suc s - 1) \<and> odd q) then q + 1 else q) * 2 ^ Suc s"
    using assms unfolding round53_def Let_def k q_def r_def by simp
  then have r53: "round53 p = (if h < r \<or> (r = h \<and> odd q) then X + 2 * h else X)"
    by (simp add: h_def X_def algebra_simps)
  have "X + r \<le> (if h < r \<or> (r = h \<and> odd q) then X + 2 * h else X) + h"
    using rlt by auto
  then have "X + r \<le> round53 p + h"
    by (simp only: r53)
  then have "p \<le> round53 p + h"
    by (simp only: p [symmetric])
  then show ?thesis
    by (simp add: h_def s_def)
qed

lemma round53_ge: "p * 2 ^ 53 \<le> round53 p * 2 ^ 53 + p"
proof (cases "53 < floorlog 2 p")
  case False
  then have "round53 p = p"
    by (simp add: round53_def)
  then show ?thesis by simp
next
  case True
  define h where "h = (2::nat) ^ (floorlog 2 p - 54)"
  have pos: "0 < p"
    using True by (cases "p = 0") (simp_all add: floorlog_def)
  have "(2::nat) ^ (floorlog 2 p - 1) \<le> p"
    using floorlog_bounds [of p 2] pos by simp
  moreover have "floorlog 2 p - 1 = (floorlog 2 p - 54) + 53"
    using True by simp
  ultimately have lo: "h * 2 ^ 53 \<le> p"
    by (simp only: h_def power_add)
  have "p \<le> round53 p + h"
    using round53_ge_sub [OF True] by (simp only: h_def)
  then have "p * 2 ^ 53 \<le> (round53 p + h) * 2 ^ 53"
    by (rule mult_le_mono1)
  also have "\<dots> = round53 p * 2 ^ 53 + h * 2 ^ 53"
    by (rule add_mult_distrib)
  also have "\<dots> \<le> round53 p * 2 ^ 53 + p"
    using lo by (rule add_left_mono)
  finally show ?thesis .
qed

lemma c085_20: "20 * c085 + 4 = 17 * 2 ^ 53"
  by (simp add: c085_def)

lemma scale_upper:
  assumes "n < 2 ^ 32"
  shows "round53 (n * c085) < (17 * n div 20 + 1) * 2 ^ 53"
proof -
  define m where "m = 17 * n div 20"
  define t where "t = 17 * n mod 20"
  define P where "P = n * c085"
  define R where "R = round53 P"
  have 1: "17 * n = 20 * m + t" "t < 20"
    by (simp_all add: m_def t_def)
  have 2: "R * 2 ^ 53 \<le> P * (2 ^ 53 + 1)"
    unfolding R_def by (rule round53_le)
  have 3: "20 * P + 4 * n = 17 * n * 2 ^ 53"
    using c085_20 by (simp add: P_def algebra_simps)
  have "R < (m + 1) * 2 ^ 53"
    using 1 2 3 assms by simp
  then show ?thesis
    by (simp only: R_def P_def m_def)
qed

lemma scale_lower_inexact:
  assumes "n < 2 ^ 32" "17 * n mod 20 \<noteq> 0"
  shows "(17 * n div 20) * 2 ^ 53 \<le> round53 (n * c085)"
proof -
  define m where "m = 17 * n div 20"
  define t where "t = 17 * n mod 20"
  define P where "P = n * c085"
  define R where "R = round53 P"
  have 1: "17 * n = 20 * m + t" "0 < t"
    using assms(2) by (simp_all add: m_def t_def)
  have 2: "P * 2 ^ 53 \<le> R * 2 ^ 53 + P"
    unfolding R_def by (rule round53_ge)
  have 3: "20 * P + 4 * n = 17 * n * 2 ^ 53"
    using c085_20 by (simp add: P_def algebra_simps)
  have "m * 2 ^ 53 \<le> R"
    using 1 2 3 assms(1) by simp
  then show ?thesis
    by (simp only: R_def P_def m_def)
qed

lemma round53_up:
  assumes k: "53 < floorlog 2 p"
    and D: "D = 2 ^ (floorlog 2 p - 53)"
    and e: "p + e = c * D" "0 < e" "2 * e < D"
  shows "round53 p = c * D"
proof -
  define s where "s = floorlog 2 p - 54"
  have ks: "floorlog 2 p - 53 = Suc s"
    using k by (simp add: s_def)
  have D2: "D = 2 * 2 ^ s"
    by (simp add: D ks)
  have cpos: "0 < c"
    using e by (cases "c = 0") simp_all
  then obtain c' where c': "c = Suc c'"
    by (cases c) simp_all
  define r0 where "r0 = D - e"
  have r0: "r0 < D" "2 ^ s < r0"
    using e(2,3) D2 by (simp_all add: r0_def)
  have "p + e = c' * D + r0 + e"
    using e c' by (simp add: r0_def algebra_simps)
  then have p: "p = c' * D + r0"
    by simp
  have r: "p mod D = r0"
    using r0(1) by (simp only: p mod_mult_self3 mod_less)
  have q: "p div D = c'"
    using r0(1) by (simp add: p)
  have "round53 p =
      (if 2 ^ (Suc s - 1) < p mod D \<or> (p mod D = 2 ^ (Suc s - 1) \<and> odd (p div D))
       then p div D + 1 else p div D) * D"
    using k unfolding round53_def Let_def ks D by simp
  also have "\<dots> = (c' + 1) * D"
    using r0(2) by (simp add: r q)
  finally show ?thesis
    by (simp add: c')
qed

lemma scale_exact_multiple:
  assumes "0 < j" "j < 2 ^ 28"
  shows "round53 (20 * j * c085) = 17 * j * 2 ^ 53"
proof -
  define P where "P = 20 * j * c085"
  define k where "k = floorlog 2 P"
  have P4: "P + 4 * j = 17 * j * 2 ^ 53"
    using c085_20 by (simp add: P_def algebra_simps)
  have lo: "16 * j * 2 ^ 53 \<le> P"
    using P4 by simp
  have "2 ^ (58 - 1) \<le> P"
    using lo assms(1) by simp
  then have k58: "58 \<le> k"
    unfolding k_def by (rule floorlog_geI) simp
  have "P < 2 ^ 86"
    using P4 assms(2) by simp
  then have k86: "k \<le> 86"
    unfolding k_def by (rule floorlog_leI) simp_all
  define D where "D = (2::nat) ^ (k - 53)"
  have "P < 2 ^ k"
    unfolding k_def using floorlog_bounds [of P 2] lo assms(1) by simp
  moreover have "(2::nat) ^ k = D * 2 ^ 53"
  proof -
    have "(2::nat) ^ ((k - 53) + 53) = 2 ^ (k - 53) * 2 ^ 53"
      by (rule power_add)
    moreover have "(k - 53) + 53 = k"
      using k58 by simp
    ultimately show ?thesis
      by (simp only: D_def)
  qed
  ultimately have "16 * j * 2 ^ 53 < D * 2 ^ 53"
    using lo by simp
  then have D16: "16 * j < D"
    by simp
  have cD: "17 * j * 2 ^ (53 - (k - 53)) * D = 17 * j * 2 ^ 53"
  proof -
    have "(2::nat) ^ ((53 - (k - 53)) + (k - 53)) = 2 ^ (53 - (k - 53)) * 2 ^ (k - 53)"
      by (rule power_add)
    moreover have "(53 - (k - 53)) + (k - 53) = 53"
      using k58 k86 by simp
    ultimately have "(2::nat) ^ (53 - (k - 53)) * D = 2 ^ 53"
      by (simp only: D_def)
    then show ?thesis
      by (simp only: mult.assoc)
  qed
  have "round53 P = 17 * j * 2 ^ (53 - (k - 53)) * D"
  proof (rule round53_up)
    show "53 < floorlog 2 P"
      using k58 by (simp add: k_def)
    show "D = 2 ^ (floorlog 2 P - 53)"
      by (simp add: D_def k_def)
    show "P + 4 * j = 17 * j * 2 ^ (53 - (k - 53)) * D"
      by (simp only: cD P4)
    show "0 < 4 * j"
      using assms(1) by simp
    show "2 * (4 * j) < D"
      using D16 by simp
  qed
  then show ?thesis
    by (simp only: cD P_def)
qed

lemma scale_exact_nat:
  assumes "n < 2 ^ 32"
  shows "round53 (n * c085) div 2 ^ 53 = 17 * n div 20"
proof (cases "17 * n mod 20 = 0")
  case False
  have "(17 * n div 20) * 2 ^ 53 \<le> round53 (n * c085)"
    using assms False by (rule scale_lower_inexact)
  moreover have "round53 (n * c085) < (17 * n div 20 + 1) * 2 ^ 53"
    using assms by (rule scale_upper)
  ultimately show ?thesis
    by (intro div_nat_eqI) (simp_all add: algebra_simps)
next
  case True
  then have "n mod 20 = 0"
    by presburger
  then have "20 dvd n"
    by (simp add: dvd_eq_mod_eq_0)
  then obtain j where n: "n = 20 * j" ..
  show ?thesis
  proof (cases "j = 0")
    case True
    then show ?thesis
      by (simp add: n round53_0)
  next
    case False
    then have "round53 (20 * j * c085) = 17 * j * 2 ^ 53"
      using assms by (intro scale_exact_multiple) (simp_all add: n)
    then show ?thesis
      by (simp add: n)
  qed
qed

lemma scale_int_exact_nonneg:
  assumes "0 \<le> x" "x < 2 ^ 32"
  shows "trunc53 (mul085 (float64_of_int x)) = (85 * x) sdiv 100"
proof -
  have n: "nat x < 2 ^ 32"
    using assms by (simp add: nat_less_iff)
  have f: "float64_of_int x = x"
    using assms by (intro float64_of_int_small) simp
  have m: "mul085 x = int (round53 (nat x * c085))"
    using assms(1) by (cases "x = 0") (simp_all add: mul085_def round53_0)
  have "trunc53 (mul085 x) = int (round53 (nat x * c085)) div 2 ^ 53"
    by (simp add: m trunc53_def sgn_if)
  also have "\<dots> = int (round53 (nat x * c085) div 2 ^ 53)"
    by (simp add: zdiv_int)
  also have "\<dots> = int (17 * nat x div 20)"
    using scale_exact_nat [OF n] by simp
  also have "\<dots> = (17 * x) div 20"
    using assms(1) by (simp add: zdiv_int)
  also have "\<dots> = (85 * x) sdiv 100"
    using assms(1) by (simp add: signed_divide_int_def sgn_if)
  finally show ?thesis
    by (simp only: f)
qed

lemma float64_of_int_minus: "float64_of_int (- x) = - float64_of_int x"
  by (simp add: float64_of_int_def)

lemma mul085_minus: "mul085 (- f) = - mul085 f"
  by (simp add: mul085_def)

lemma trunc53_minus: "trunc53 (- a) = - trunc53 a"
  by (simp add: trunc53_def)

lemma scale_int_minus:
  "trunc53 (mul085 (float64_of_int (- x))) = - trunc53 (mul085 (float64_of_int x))"
  by (simp only: float64_of_int_minus mul085_minus trunc53_minus)

lemma sdiv_minus_left: "(- a) sdiv b = - (a sdiv (b :: int))"
  by (simp add: signed_divide_int_def)

lemma scale_int_exact:
  assumes "\<bar>x\<bar> < 2 ^ 32"
  shows "trunc53 (mul085 (float64_of_int x)) = (85 * x) sdiv 100"
proof (cases "0 \<le> x")
  case True
  then show ?thesis
    using assms by (intro scale_int_exact_nonneg) simp_all
next
  case False
  then have "trunc53 (mul085 (float64_of_int (- x))) = (85 * (- x)) sdiv 100"
    using assms by (intro scale_int_exact_nonneg) simp_all
  then have "- trunc53 (mul085 (float64_of_int x)) = - ((85 * x) sdiv 100)"
    by (simp only: scale_int_minus mult_minus_right sdiv_minus_left)
  then show ?thesis
    by simp
qed

lemma sint_scale85_exact:
  "\<bar>sint n\<bar> < 2 ^ 32 \<Longrightarrow> sint (scale85 n) = (85 * sint n) sdiv 100"
  by (simp only: sint_scale85 scale_int_exact)

section \<open>The windowed layout\<close>

lemma sint_outerWidth_windowed:
  assumes "120 \<le>s mw"
  shows "sint (outerWidth mw) = min (sint mw - 6) (sint (scale85 mw))"
proof -
  have "sint (mw - 6) = sint mw - 6"
    using assms sint_lt [of mw] by (simp add: sint_sub word_sle_eq)
  then show ?thesis
    using assms
    by (simp add: outerWidth_def fullscreenWidthBreakpoint_def word_sless_alt word_sle_eq
        min_def)
qed

lemma sint_outerHeight_windowed:
  assumes "120 \<le>s mw" "16 \<le>s mh"
  shows "sint (outerHeight mw mh) = min (sint mh - 4) (sint (scale85 mh))"
proof -
  have "sint (mh - 4) = sint mh - 4"
    using assms sint_lt [of mh] by (simp add: sint_sub word_sle_eq)
  then show ?thesis
    using assms
    by (simp add: outerHeight_def fullscreenWidthBreakpoint_def word_sless_alt word_sle_eq
        min_def)
qed

lemma windowed_width_bound:
  assumes "120 \<le>s mw"
  shows "sint (smax (outerWidth mw - 2) 40) + 2 \<le> sint mw - 6"
proof -
  have s: "0 \<le> sint (scale85 mw)"
    using assms scale85_nonneg [of mw] by (simp add: word_sle_eq)
  have o: "sint (outerWidth mw) = min (sint mw - 6) (sint (scale85 mw))"
    using assms by (rule sint_outerWidth_windowed)
  have "sint (outerWidth mw - 2) = sint (outerWidth mw) - 2"
    using assms s o sint_lt [of "outerWidth mw"] by (simp add: sint_sub word_sle_eq)
  then show ?thesis
    using assms o by (simp add: sint_smax word_sle_eq)
qed

lemma windowed_height_bound:
  assumes "120 \<le>s mw"
  shows "(sint (smax (outerHeight mw mh - 2) 10) + 2 \<le> sint mh - 4) = (16 \<le> sint mh)"
proof (cases "16 \<le>s mh")
  case True
  have s: "0 \<le> sint (scale85 mh)"
    using True scale85_nonneg [of mh] by (simp add: word_sle_eq)
  have o: "sint (outerHeight mw mh) = min (sint mh - 4) (sint (scale85 mh))"
    using assms True by (rule sint_outerHeight_windowed)
  have "sint (outerHeight mw mh - 2) = sint (outerHeight mw mh) - 2"
    using True s o sint_lt [of "outerHeight mw mh"] by (simp add: sint_sub word_sle_eq)
  then show ?thesis
    using True o by (simp add: sint_smax word_sle_eq)
next
  case False
  then show ?thesis
    by (simp add: sint_smax word_sle_eq)
qed

section \<open>Sequences of messages\<close>












lemma Update_onClose: "onClose (fst (Update m d)) = onClose d"
  by (cases m) (simp_all add: Update_def handleResize_onClose handleKey_def handleMouse_def
      split: prod.splits)

lemma run_onClose: "onClose (run ms d) = onClose d"
  by (induction ms arbitrary: d) (simp_all add: Update_onClose)

section \<open>Geometry after a resize\<close>

text \<open>
  Claim C1. For every host width and height, after \<open>handleResize\<close> the inner width is at
  least 40 and the inner height at least 10; the terminal is resized to that width and
  to the terminal height derived from that height (the first call the handler makes on
  the terminal); the terminal height is \<open>max (height - 2) 5\<close> as an integer, the
  subtraction not wrapping, and so is at least 5.
\<close>

theorem resize_floors:
  "40 \<le>s width (fst (handleResize mw mh d)) \<and>
   10 \<le>s height (fst (handleResize mw mh d)) \<and>
   fst (calls (terminal (fst (handleResize mw mh d))) ! length (calls (terminal d))) =
     CallResize (width (fst (handleResize mw mh d)))
       (termHeight (height (fst (handleResize mw mh d)))) \<and>
   sint (termHeight (height (fst (handleResize mw mh d)))) =
     max (sint (height (fst (handleResize mw mh d))) - 2) 5 \<and>
   5 \<le>s termHeight (height (fst (handleResize mw mh d)))"
  by (simp add: handleResize_width handleResize_height handleResize_first_call
      smax_ge_right termHeight_ge5 sint_termHeight)

text \<open>
  Claim C2. After \<open>handleResize\<close> the dialog is in fullscreen layout exactly when the
  host width is below 120, for every host width (the negative ones too); width 119 gives
  fullscreen and width 120 gives the windowed layout.
\<close>

theorem fullscreen_iff_below_breakpoint:
  "fullscreen (fst (handleResize mw mh d)) = (sint mw < 120) \<and>
   fullscreen (fst (handleResize 119 mh d)) \<and>
   \<not> fullscreen (fst (handleResize 120 mh d))"
  by (simp add: handleResize_fullscreen fullscreenWidthBreakpoint_def word_sless_alt)

section \<open>Starting the terminal\<close>




text \<open>
  Claim C4. On a window-size message with the terminal not yet started: when \<open>Resize\<close>
  returns an error, the command is the report of that error alone, \<open>Resize\<close> is the only
  call made (\<open>Start\<close> is not called) and the terminal stays not started; when \<open>Resize\<close>
  succeeds and \<open>Start\<close> returns an error, the command is the report of that error alone
  and the terminal stays not started; only when both succeed is the command the batch of
  the wait-for-exit and the refresh tasks.
\<close>

theorem first_resize_outcome:
  assumes "\<not> Terminal_Started (terminal d)"
  shows
    "(let d' = fst (handleResize mw mh d);
          cmd = snd (handleResize mw mh d);
          r = Terminal_Resize (width d') (termHeight (height d')) (terminal d)
      in case fst r of
           Some e \<Rightarrow>
             cmd = Some (ReportError e) \<and>
             newCalls d d' = [(CallResize (width d') (termHeight (height d')), Some e)] \<and>
             \<not> Terminal_Started (terminal d')
         | None \<Rightarrow>
             (case fst (Terminal_Start (snd r)) of
                Some e \<Rightarrow>
                  cmd = Some (ReportError e) \<and>
                  newCalls d d' =
                    [(CallResize (width d') (termHeight (height d')), None),
                     (CallStart, Some e)] \<and>
                  \<not> Terminal_Started (terminal d')
              | None \<Rightarrow>
                  cmd = Some (Batch [WaitCmd, RefreshCmd]) \<and>
                  newCalls d d' =
                    [(CallResize (width d') (termHeight (height d')), None),
                     (CallStart, None)] \<and>
                  Terminal_Started (terminal d')))"
  using assms
  by (simp add: Let_def handleResize_width handleResize_height newCalls_handleResize
      handleResize_Started split: option.splits)
    (auto simp add: handleResize_unstarted Let_def split: prod.splits option.splits)

text \<open>
  The three outcomes on the editor dialog at host bounds 100 by 30: a failing \<open>Resize\<close>,
  a failing \<open>Start\<close>, and a terminal on which both succeed.
\<close>

theorem first_resize_outcome_witness:
  "\<not> Terminal_Started (terminal (New (editorConfig resizeFailTerminal))) \<and>
   snd (handleResize 100 30 (New (editorConfig resizeFailTerminal))) =
     Some (ReportError ''resize failed'') \<and>
   newCalls (New (editorConfig resizeFailTerminal))
     (fst (handleResize 100 30 (New (editorConfig resizeFailTerminal)))) =
     [(CallResize 98 26, Some ''resize failed'')] \<and>
   \<not> Terminal_Started (terminal (New (editorConfig startFailTerminal))) \<and>
   snd (handleResize 100 30 (New (editorConfig startFailTerminal))) =
     Some (ReportError ''start failed'') \<and>
   newCalls (New (editorConfig startFailTerminal))
     (fst (handleResize 100 30 (New (editorConfig startFailTerminal)))) =
     [(CallResize 98 26, None), (CallStart, Some ''start failed'')] \<and>
   snd (handleResize 100 30 (New (editorConfig plainTerminal))) =
     Some (Batch [WaitCmd, RefreshCmd])"
  using first_resize_outcome [of "New (editorConfig resizeFailTerminal)" 100 30]
    first_resize_outcome [of "New (editorConfig startFailTerminal)" 100 30]
    first_resize_outcome [of "New (editorConfig plainTerminal)" 100 30]
  by (simp add: eval_defs)

section \<open>Closing the dialog\<close>

text \<open>
  Claim C5. \<open>Close\<close> always calls the terminal's \<open>Close\<close> (the one call it makes, after
  which the terminal is closed) and drops the error: the command returned is the same
  whatever \<open>Close\<close> of the terminal returns. The command is the result of the completion
  callback when the dialog has one and none otherwise, and the callback of the dialog,
  after any messages, is the one given to \<open>New\<close>.
\<close>

theorem Close_result:
  "snd (Close (run ms (New cfg))) =
     (case cfg_OnClose cfg of Some f \<Rightarrow> f () | None \<Rightarrow> None) \<and>
   snd (Close d) = (case onClose d of Some f \<Rightarrow> f () | None \<Rightarrow> None) \<and>
   snd (Close (d\<lparr>terminal := (terminal d)\<lparr>closeErr := ce\<rparr>\<rparr>)) = snd (Close d) \<and>
   newCalls d (fst (Close d)) = [(CallClose, closeErr (terminal d) (calls (terminal d)))] \<and>
   Terminal_Closed (terminal (fst (Close d)))"
  by (simp add: Close_def Terminal_Close_def Terminal_Closed_def newCalls_def run_onClose
      New_def split: prod.splits)

text \<open>
  On a terminal whose \<open>Close\<close> fails: without a callback \<open>Close\<close> of the dialog returns
  no command; with a callback that fails to read the file it returns the one result
  message carrying that error.
\<close>

theorem Close_result_witness:
  "snd (Close (run [WindowSizeMsg 200 60, KeyPressMsg ''i'' 105]
          (New (editorConfig closeFailTerminal)))) = None \<and>
   snd (Close (run [WindowSizeMsg 200 60]
          (New (editorConfigWithCallback closeFailTerminal)))) =
     Some (CmdHandler (ResultMsg [] (Some ''no such file'')))"
  using Close_result [of "[WindowSizeMsg 200 60, KeyPressMsg ''i'' 105]"
      "editorConfig closeFailTerminal", THEN conjunct1]
    Close_result [of "[WindowSizeMsg 200 60]" "editorConfigWithCallback closeFailTerminal",
      THEN conjunct1]
  by (simp add: editorConfig_def editorConfigWithCallback_def failingCallback_def)

section \<open>Position, mouse and cursor\<close>

text \<open>
  Claim C6. For every point and every state of the dialog, the adjustment of mouse
  coordinates and the mapping of the cursor to the screen are inverse to each other, in
  both orders. \<open>handleMouse\<close> sends the terminal the adjusted point, and when the
  terminal's cursor is at the adjusted point and visible, \<open>Cursor\<close> is the original
  point.
\<close>

theorem adjust_cursorToScreen_inverse:
  "cursorToScreen d (adjust d p) = p \<and>
   adjust d (cursorToScreen d p) = p \<and>
   newCalls d (fst (handleMouse k (fst p) (snd p) d)) =
     [(CallSendMouse k (fst (adjust d p)) (snd (adjust d p)), None)] \<and>
   Cursor (d\<lparr>terminal := (terminal d)\<lparr>cursor := adjust d p\<rparr>\<rparr>) =
     (if fst (adjust d p) <s 0 \<or> snd (adjust d p) <s 0 then None else Some p)"
  by (simp add: cursorToScreen_def adjust_def Cursor_def Position_def handleMouse_def
      newCalls_def Terminal_Send_def Terminal_CursorPosition_def Let_def split: prod.splits)

text \<open>
  Claim C7. \<open>Position\<close> is \<open>(0, 0)\<close> in fullscreen layout; otherwise the row is
  \<open>max ((wHeight - (height + 2)) / 2) 0\<close> and the column
  \<open>max ((wWidth - (width + 2)) / 2) 0\<close> in Go's arithmetic, and both are non-negative
  in every state. Where the sums and differences fit a Go \<open>int\<close>, these are the same
  expressions over the integers, whether the division truncates or floors.
\<close>

theorem Position_value:
  "Position d =
     (if fullscreen d then (0, 0)
      else (smax (quot (wHeight d - (height d + 2)) 2) 0,
            smax (quot (wWidth d - (width d + 2)) 2) 0)) \<and>
   0 \<le>s fst (Position d) \<and> 0 \<le>s snd (Position d) \<and>
   (\<not> fullscreen d \<and>
    fitsInt (sint (height d) + 2) \<and> fitsInt (sint (wHeight d) - (sint (height d) + 2)) \<and>
    fitsInt (sint (width d) + 2) \<and> fitsInt (sint (wWidth d) - (sint (width d) + 2)) \<longrightarrow>
    sint (fst (Position d)) = max ((sint (wHeight d) - (sint (height d) + 2)) div 2) 0 \<and>
    sint (snd (Position d)) = max ((sint (wWidth d) - (sint (width d) + 2)) div 2) 0)"
  by (simp add: Position_def Let_def smax_ge_right sint_centre)

text \<open>
  A windowed dialog of inner size 100 by 10 in a host of 120 by 11: the bordered box is
  taller than the host, the row is 0 and the column 9.
\<close>

theorem Position_value_witness:
  "\<not> fullscreen ((New (editorConfig plainTerminal))
       \<lparr>wWidth := 120, wHeight := 11, width := 100, height := 10\<rparr>) \<and>
   fitsInt (sint (11 :: int64) - (sint (10 :: int64) + 2)) \<and>
   Position ((New (editorConfig plainTerminal))
       \<lparr>wWidth := 120, wHeight := 11, width := 100, height := 10\<rparr>) = (0, 9) \<and>
   max ((sint (11 :: int64) - (sint (10 :: int64) + 2)) div 2) 0 = 0 \<and>
   max ((sint (120 :: int64) - (sint (100 :: int64) + 2)) div 2) 0 = 9"
proof -
  have e: "Position ((New (editorConfig plainTerminal))
       \<lparr>wWidth := 120, wHeight := 11, width := 100, height := 10\<rparr>) = (0, 9)"
    by (simp add: New_def Position_def smax_def quot_def signed_divide_int_def word_sless_alt)
  show ?thesis
    using e Position_value [of "(New (editorConfig plainTerminal))
       \<lparr>wWidth := 120, wHeight := 11, width := 100, height := 10\<rparr>"]
    by (simp add: New_def fitsInt_def)
qed

section \<open>The windowed layout and the 85% rule\<close>

text \<open>
  Claim C8, as stated, fails in height: at host bounds 120 by 15 the layout is windowed,
  the inner height is the floor 10, the bordered box is 12 rows high and the host height
  less 4 is 11.
\<close>

theorem windowed_height_exceeds_at_120x15:
  "height (fst (handleResize 120 15 (New (editorConfig plainTerminal)))) + 2 = 12 \<and>
   \<not> (height (fst (handleResize 120 15 (New (editorConfig plainTerminal)))) + 2 \<le>s 15 - 4) \<and>
   \<not> (sint (height (fst (handleResize 120 15 (New (editorConfig plainTerminal))))) + 2
        \<le> sint (15 :: int64) - 4)"
  by (simp add: handleResize_height outer_120x15 smax_def word_sless_alt word_sle_eq)

text \<open>
  Claim C8, amended. For every host width of at least 120 the layout is windowed and the
  outer width (inner width plus 2) is at most the host width less 6, whatever the host
  height. The outer height (inner height plus 2) is at most the host height less 4
  exactly when the host height is at least 16: below that the floor of 10 inner rows
  makes the box 12 rows high.
\<close>

theorem windowed_outer_size_bounded:
  assumes "120 \<le>s mw"
  shows
    "\<not> fullscreen (fst (handleResize mw mh d)) \<and>
     sint (width (fst (handleResize mw mh d))) + 2 \<le> sint mw - 6 \<and>
     (sint (height (fst (handleResize mw mh d))) + 2 \<le> sint mh - 4) = (16 \<le> sint mh)"
  using assms windowed_width_bound [OF assms] windowed_height_bound [OF assms, of mh]
  by (simp add: handleResize_width handleResize_height handleResize_fullscreen
      fullscreenWidthBreakpoint_def word_sless_alt word_sle_eq)

text \<open>The amended claim at host bounds 200 by 60.\<close>

theorem windowed_outer_size_bounded_witness:
  "(120 :: int64) \<le>s 200 \<and>
   sint (width (fst (handleResize 200 60 (New (editorConfig plainTerminal))))) + 2
     \<le> sint (200 :: int64) - 6 \<and>
   sint (height (fst (handleResize 200 60 (New (editorConfig plainTerminal))))) + 2
     \<le> sint (60 :: int64) - 4"
proof -
  have h: "(120 :: int64) \<le>s 200"
    by (simp add: word_sle_eq)
  show ?thesis
    using h windowed_outer_size_bounded [OF h, of 60 "New (editorConfig plainTerminal)"]
    by simp
qed

text \<open>
  Claim C9, as stated, fails: at host bounds 200 by 60 the inner height is not 47 and the
  row of \<open>Position\<close> is not 5.
\<close>

theorem resize_200x60_not_47:
  "height (fst (handleResize 200 60 (New (editorConfig plainTerminal)))) \<noteq> 47 \<and>
   fst (Position (fst (handleResize 200 60 (New (editorConfig plainTerminal))))) \<noteq> 5"
  by (simp add: Position_def Let_def handleResize_width handleResize_height
      handleResize_fullscreen handleResize_host outer_200x60 fullscreenWidthBreakpoint_def
      smax_def quot_def word_sless_alt signed_divide_int_def)

text \<open>
  Claim C9, amended. At host bounds 200 by 60 the dialog is windowed with inner size 168
  by 49 (the outer size is 170 by 51: 85% of the host bounds, below the caps 194 and 56),
  and \<open>Position\<close> is the row \<open>(60 - 51) / 2 = 4\<close> and the column
  \<open>(200 - 170) / 2 = 15\<close>. The terminal height is 47.
\<close>

theorem resize_200x60:
  "\<not> fullscreen (fst (handleResize 200 60 d)) \<and>
   width (fst (handleResize 200 60 d)) = 168 \<and>
   height (fst (handleResize 200 60 d)) = 49 \<and>
   termHeight (height (fst (handleResize 200 60 d))) = 47 \<and>
   Position (fst (handleResize 200 60 d)) = (4, 15)"
  by (simp add: Position_def Let_def handleResize_width handleResize_height
      handleResize_fullscreen handleResize_host outer_200x60 fullscreenWidthBreakpoint_def
      termHeight_def headerHeight_def smax_def quot_def word_sless_alt signed_divide_int_def)

section \<open>The guard of the first resize\<close>

text \<open>
  Claim C10, as stated, fails: a terminal not yet started is not always started by the
  first window-size message. When its \<open>Resize\<close> returns an error, \<open>Start\<close> is not
  called and the terminal stays not started.
\<close>

theorem first_resize_not_always_started:
  "\<not> Terminal_Started
       (terminal (fst (handleResize 0 0 (New (editorConfig resizeFailTerminal))))) \<and>
   \<not> list_ex isStart
       (calls (terminal (fst (handleResize 0 0 (New (editorConfig resizeFailTerminal))))))"
  by (simp add: eval_defs isStart_def)

text \<open>
  Claim C10, amended. For every host size, zero and negative bounds too, the guard
  \<open>width > 0\<close> and \<open>termHeight > 0\<close> holds, so a terminal not yet started is always
  resized, to the inner width and the terminal height; \<open>Start\<close> is called exactly when
  that \<open>Resize\<close> returns no error, and the terminal ends up started exactly when neither
  call returns an error.
\<close>

theorem first_resize_takes_start_branch:
  assumes "\<not> Terminal_Started (terminal d)"
  shows
    "(let d' = fst (handleResize mw mh d);
          r = Terminal_Resize (width d') (termHeight (height d')) (terminal d)
      in 0 <s width d' \<and> 0 <s termHeight (height d') \<and>
         newCalls d d' =
           (CallResize (width d') (termHeight (height d')), fst r) #
           (if fst r = None then [(CallStart, fst (Terminal_Start (snd r)))] else []) \<and>
         Terminal_Started (terminal d') =
           (fst r = None \<and> fst (Terminal_Start (snd r)) = None))"
  using assms
  by (simp add: Let_def handleResize_width handleResize_height newCalls_handleResize
      handleResize_Started width_pos termHeight_pos)

text \<open>The amended claim at the host bounds -5 by 0, on a terminal that does not fail.\<close>

theorem first_resize_takes_start_branch_witness:
  "\<not> Terminal_Started (terminal (New (editorConfig plainTerminal))) \<and>
   newCalls (New (editorConfig plainTerminal))
     (fst (handleResize (- 5) 0 (New (editorConfig plainTerminal)))) =
     [(CallResize 40 8, None), (CallStart, None)] \<and>
   Terminal_Started (terminal (fst (handleResize (- 5) 0 (New (editorConfig plainTerminal)))))"
  using first_resize_takes_start_branch [of "New (editorConfig plainTerminal)" "- 5" 0]
  by (simp add: eval_defs)

end
